theory Spec2Isabelle
  imports Complex_Main
begin

section \<open>JavaScript numbers\<close>

text \<open>
  The algorithm library computes on the TypeScript type \<open>number\<close>. A finite number is
  modelled as a real (binary rounding and overflow of doubles are not modelled); the
  non-finite values that the code can produce from finite inputs (a division by zero, the
  year of an Invalid Date) are kept as values of their own, since JavaScript never raises
  on them. The zero of the model is the positive zero.
\<close>

datatype jsnum = Num real | NaN | PosInfinity | NegInfinity

text \<open>The infinity with the sign of \<open>x\<close>; \<open>NaN\<close> for zero (\<open>0 / 0\<close> and \<open>Infinity * 0\<close>).\<close>

definition signed_infinity :: "real \<Rightarrow> jsnum" where
  "signed_infinity x = (if x = 0 then NaN else if 0 < x then PosInfinity else NegInfinity)"

text \<open>The operator \<open>*\<close>.\<close>

fun js_mul :: "jsnum \<Rightarrow> jsnum \<Rightarrow> jsnum" where
  "js_mul (Num a) (Num b) = Num (a * b)"
| "js_mul NaN _ = NaN"
| "js_mul _ NaN = NaN"
| "js_mul (Num a) PosInfinity = signed_infinity a"
| "js_mul (Num a) NegInfinity = signed_infinity (- a)"
| "js_mul PosInfinity (Num b) = signed_infinity b"
| "js_mul NegInfinity (Num b) = signed_infinity (- b)"
| "js_mul PosInfinity PosInfinity = PosInfinity"
| "js_mul PosInfinity NegInfinity = NegInfinity"
| "js_mul NegInfinity PosInfinity = NegInfinity"
| "js_mul NegInfinity NegInfinity = PosInfinity"

text \<open>The operator \<open>/\<close>: a finite number over zero is an infinity or \<open>NaN\<close>, never an error.\<close>

fun js_div :: "jsnum \<Rightarrow> jsnum \<Rightarrow> jsnum" where
  "js_div (Num a) (Num b) = (if b = 0 then signed_infinity a else Num (a / b))"
| "js_div NaN _ = NaN"
| "js_div _ NaN = NaN"
| "js_div (Num a) PosInfinity = Num 0"
| "js_div (Num a) NegInfinity = Num 0"
| "js_div PosInfinity (Num b) = (if 0 \<le> b then PosInfinity else NegInfinity)"
| "js_div NegInfinity (Num b) = (if 0 \<le> b then NegInfinity else PosInfinity)"
| "js_div PosInfinity PosInfinity = NaN"
| "js_div PosInfinity NegInfinity = NaN"
| "js_div NegInfinity PosInfinity = NaN"
| "js_div NegInfinity NegInfinity = NaN"

text \<open>The binary operator \<open>-\<close>.\<close>

fun js_sub :: "jsnum \<Rightarrow> jsnum \<Rightarrow> jsnum" where
  "js_sub (Num a) (Num b) = Num (a - b)"
| "js_sub NaN _ = NaN"
| "js_sub _ NaN = NaN"
| "js_sub (Num a) PosInfinity = NegInfinity"
| "js_sub (Num a) NegInfinity = PosInfinity"
| "js_sub PosInfinity (Num b) = PosInfinity"
| "js_sub NegInfinity (Num b) = NegInfinity"
| "js_sub PosInfinity PosInfinity = NaN"
| "js_sub PosInfinity NegInfinity = PosInfinity"
| "js_sub NegInfinity PosInfinity = NegInfinity"
| "js_sub NegInfinity NegInfinity = NaN"

text \<open>
  \<open>Math.round\<close> on a finite number: the nearest integer, a tie going up
  (\<open>Math.round(2.5) = 3\<close>, \<open>Math.round(-2.5) = -2\<close>).
\<close>

definition Math_round :: "real \<Rightarrow> real" where
  "Math_round x = of_int \<lfloor>x + 1 / 2\<rfloor>"

text \<open>\<open>Math.round\<close> on any number: \<open>NaN\<close> and the infinities are returned as they are.\<close>

fun js_round :: "jsnum \<Rightarrow> jsnum" where
  "js_round (Num a) = Num (Math_round a)"
| "js_round NaN = NaN"
| "js_round PosInfinity = PosInfinity"
| "js_round NegInfinity = NegInfinity"

fun isFinite :: "jsnum \<Rightarrow> bool" where
  "isFinite (Num a) = True"
| "isFinite NaN = False"
| "isFinite PosInfinity = False"
| "isFinite NegInfinity = False"

subsection \<open>Number to string\<close>

definition digit_char :: "nat \<Rightarrow> char" where
  "digit_char n = ''0123456789'' ! (n mod 10)"

text \<open>The decimal digits of a natural number, as \<open>${n}\<close> prints an integer.\<close>

fun decimal :: "nat \<Rightarrow> string" where
  "decimal n = (if n < 10 then [digit_char n] else decimal (n div 10) @ [digit_char n])"

declare decimal.simps [simp del]

text \<open>
  \<open>x.toFixed(1)\<close> for a finite \<open>x\<close> below \<open>10^21\<close>: the integer \<open>n\<close> with \<open>n / 10\<close>
  nearest to \<open>x\<close> (the larger one on a tie), printed with one digit after the point.
\<close>

definition toFixed1 :: "real \<Rightarrow> string" where
  "toFixed1 x =
    (let s = (if x < 0 then ''-'' else '''');
         n = nat \<lfloor>\<bar>x\<bar> * 10 + 1 / 2\<rfloor>
     in s @ decimal (n div 10) @ ''.'' @ [digit_char (n mod 10)])"

section \<open>Types and constants of the algorithm library\<close>

datatype Gender = male | female | other

datatype MacroPreference = balanced | high_protein | low_carb | keto | manual

record Ratios =
  protein :: real
  carbs :: real
  fat :: real

text \<open>Macro preference ratios (protein, carbs, fat); \<open>manual\<close> has a default of its own.\<close>

fun MACRO_PRESETS :: "MacroPreference \<Rightarrow> Ratios" where
  "MACRO_PRESETS balanced = \<lparr>protein = 30 / 100, carbs = 35 / 100, fat = 35 / 100\<rparr>"
| "MACRO_PRESETS high_protein = \<lparr>protein = 40 / 100, carbs = 30 / 100, fat = 30 / 100\<rparr>"
| "MACRO_PRESETS low_carb = \<lparr>protein = 35 / 100, carbs = 20 / 100, fat = 45 / 100\<rparr>"
| "MACRO_PRESETS keto = \<lparr>protein = 30 / 100, carbs = 5 / 100, fat = 65 / 100\<rparr>"
| "MACRO_PRESETS manual = \<lparr>protein = 30 / 100, carbs = 35 / 100, fat = 35 / 100\<rparr>"

text \<open>Calories per gram for macros.\<close>

definition CALORIES_PER_GRAM :: Ratios where
  "CALORIES_PER_GRAM = \<lparr>protein = 4, carbs = 4, fat = 9\<rparr>"

definition CALORIES_PER_POUND :: real where
  "CALORIES_PER_POUND = 3500"

text \<open>Safety limits.\<close>

definition MIN_CALORIES_MALE :: real where
  "MIN_CALORIES_MALE = 1500"

definition MIN_CALORIES_FEMALE :: real where
  "MIN_CALORIES_FEMALE = 1200"

definition MAX_WEEKLY_LOSS_LBS :: nat where
  "MAX_WEEKLY_LOSS_LBS = 2"

definition MAX_WEEKLY_GAIN_LBS :: nat where
  "MAX_WEEKLY_GAIN_LBS = 1"

section \<open>Goal safety\<close>

record GoalSafety =
  isSafe :: bool
  isRealistic :: bool
  message :: string

definition validateGoalSafety :: "real \<Rightarrow> GoalSafety" where
  "validateGoalSafety weeklyChange =
    (let absChange = \<bar>weeklyChange\<bar> in
     if weeklyChange < 0 then
       (if absChange > real MAX_WEEKLY_LOSS_LBS * (3 / 2) then
          \<lparr>isSafe = False, isRealistic = False,
           message = ''Losing '' @ toFixed1 absChange @
             '' lbs/week is extremely dangerous and unrealistic. Maximum recommended is '' @
             decimal MAX_WEEKLY_LOSS_LBS @ '' lbs/week.''\<rparr>
        else if absChange > real MAX_WEEKLY_LOSS_LBS then
          \<lparr>isSafe = False, isRealistic = True,
           message = ''Losing '' @ toFixed1 absChange @
             '' lbs/week is aggressive and may not be sustainable. Consider a more gradual approach.''\<rparr>
        else
          \<lparr>isSafe = True, isRealistic = True, message = ''Your goal is realistic and safe.''\<rparr>)
     else if weeklyChange > 0 then
       (if absChange > real MAX_WEEKLY_GAIN_LBS * (3 / 2) then
          \<lparr>isSafe = False, isRealistic = False,
           message = ''Gaining '' @ toFixed1 absChange @
             '' lbs/week will likely result in excessive fat gain. Maximum recommended is '' @
             decimal MAX_WEEKLY_GAIN_LBS @ '' lb/week.''\<rparr>
        else if absChange > real MAX_WEEKLY_GAIN_LBS then
          \<lparr>isSafe = False, isRealistic = True,
           message = ''Gaining '' @ toFixed1 absChange @
             '' lbs/week is aggressive. Consider a slower approach for lean gains.''\<rparr>
        else
          \<lparr>isSafe = True, isRealistic = True, message = ''Your goal is realistic and safe.''\<rparr>)
     else
       \<lparr>isSafe = True, isRealistic = True, message = ''Your goal is realistic and safe.''\<rparr>)"

section \<open>Dates\<close>

text \<open>
  A (valid) \<open>Date\<close> object is modelled by its time value, the milliseconds since
  1970-01-01T00:00:00Z that \<open>getTime()\<close> returns. The current time \<open>new Date()\<close> is
  a parameter \<open>now\<close> of every function that reads the clock; a caller that leaves out
  the \<open>referenceDate\<close> of \<open>calculateAge\<close> passes the current time. The functions below
  are the day and year arithmetic of the ECMAScript language specification, on which
  \<open>getUTCFullYear()\<close> is defined.
\<close>

type_synonym Date = int

definition msPerDay :: int where
  "msPerDay = 1000 * 60 * 60 * 24"

definition Day :: "int \<Rightarrow> int" where
  "Day t = t div msPerDay"

definition TimeWithinDay :: "int \<Rightarrow> int" where
  "TimeWithinDay t = t mod msPerDay"

definition DaysInYear :: "int \<Rightarrow> int" where
  "DaysInYear y =
    (if y mod 4 \<noteq> 0 then 365
     else if y mod 100 \<noteq> 0 then 366
     else if y mod 400 \<noteq> 0 then 365
     else 366)"

definition DayFromYear :: "int \<Rightarrow> int" where
  "DayFromYear y = 365 * (y - 1970) + (y - 1969) div 4 - (y - 1901) div 100 + (y - 1601) div 400"

text \<open>
  \<open>new Date(value)\<close>: a time value further than 8.64e15 ms from the epoch gives an
  Invalid Date, here \<open>None\<close>.
\<close>

definition TimeClip :: "int \<Rightarrow> int option" where
  "TimeClip v = (if \<bar>v\<bar> > 8640000000000000 then None else Some v)"

subsection \<open>The year of a time value\<close>

text \<open>
  ECMAScript defines \<open>YearFromTime(t)\<close> as the largest year \<open>y\<close> whose first day is not
  after \<open>t\<close>. It is computed by a search downwards between two years that enclose it
  (a year has 365 or 366 days); that the search finds the year of the definition is proved
  below (\<open>YearFromTime_bounds\<close>, \<open>YearFromTime_largest\<close>).
\<close>

function yearSearch :: "int \<Rightarrow> int \<Rightarrow> int \<Rightarrow> int" where
  "yearSearch d lo y = (if y \<le> lo \<or> DayFromYear y \<le> d then y else yearSearch d lo (y - 1))"
  by pat_completeness auto
termination
  by (relation "measure (\<lambda>(d, lo, y). nat (y - lo))") auto

declare yearSearch.simps [simp del]

definition YearFromTime :: "int \<Rightarrow> int" where
  "YearFromTime t =
    (let d = Day t
     in yearSearch d (1968 + min (d div 365) (d div 366)) (1971 + max (d div 365) (d div 366)))"

subsection \<open>The month and the day of the month\<close>

definition InLeapYear :: "int \<Rightarrow> int" where
  "InLeapYear t = (if DaysInYear (YearFromTime t) = 366 then 1 else 0)"

definition DayWithinYear :: "int \<Rightarrow> int" where
  "DayWithinYear t = Day t - DayFromYear (YearFromTime t)"

text \<open>The month of a time value, January being 0.\<close>

definition MonthFromTime :: "int \<Rightarrow> int" where
  "MonthFromTime t =
    (let d = DayWithinYear t; l = InLeapYear t in
     if d < 31 then 0
     else if d < 59 + l then 1
     else if d < 90 + l then 2
     else if d < 120 + l then 3
     else if d < 151 + l then 4
     else if d < 181 + l then 5
     else if d < 212 + l then 6
     else if d < 243 + l then 7
     else if d < 273 + l then 8
     else if d < 304 + l then 9
     else if d < 334 + l then 10
     else 11)"

definition DateFromTime :: "int \<Rightarrow> int" where
  "DateFromTime t =
    (let d = DayWithinYear t; l = InLeapYear t; m = MonthFromTime t in
     if m = 0 then d + 1
     else if m = 1 then d - 30
     else if m = 2 then d - 58 - l
     else if m = 3 then d - 89 - l
     else if m = 4 then d - 119 - l
     else if m = 5 then d - 150 - l
     else if m = 6 then d - 180 - l
     else if m = 7 then d - 211 - l
     else if m = 8 then d - 242 - l
     else if m = 9 then d - 272 - l
     else if m = 10 then d - 303 - l
     else d - 333 - l)"

text \<open>
  The time value of \<open>new Date('YYYY-MM-DD')\<close>: midnight UTC of the calendar day, the
  month counted from 1 as in the string.
\<close>

definition utcDate :: "int \<Rightarrow> nat \<Rightarrow> int \<Rightarrow> Date" where
  "utcDate y m d =
    (DayFromYear y + [0, 31, 59, 90, 120, 151, 181, 212, 243, 273, 304, 334] ! (m - 1)
      + (if 2 < m \<and> DaysInYear y = 366 then 1 else 0) + (d - 1)) * msPerDay"

section \<open>Unit and time utilities\<close>

text \<open>
  Calculate age from date of birth. The difference of the two time values is read as a
  date of its own, and the age is the distance of that date's year from 1970; the year of
  an Invalid Date is \<open>NaN\<close>.
\<close>

definition calculateAge :: "Date \<Rightarrow> Date \<Rightarrow> jsnum" where
  "calculateAge dateOfBirth referenceDate =
    (let ageDiffMs = referenceDate - dateOfBirth in
     case TimeClip ageDiffMs of
       None \<Rightarrow> NaN
     | Some ageDate \<Rightarrow> Num \<bar>real_of_int (YearFromTime ageDate) - 1970\<bar>)"

text \<open>Calculate days between two dates.\<close>

definition daysBetween :: "Date \<Rightarrow> Date \<Rightarrow> real" where
  "daysBetween startDate endDate =
    (let diffMs = endDate - startDate in Math_round (real_of_int diffMs / real_of_int msPerDay))"

section \<open>Goal to target\<close>

text \<open>Calculate required weekly weight change to hit goal.\<close>

definition calculateRequiredWeeklyChange :: "Date \<Rightarrow> real \<Rightarrow> real \<Rightarrow> Date \<Rightarrow> real" where
  "calculateRequiredWeeklyChange now currentWeightLbs targetWeightLbs targetDate =
    (let days = daysBetween now targetDate;
         weeks = days / 7
     in if weeks \<le> 0 then 0
        else (let totalChange = targetWeightLbs - currentWeightLbs in totalChange / weeks))"

record GoalCalculationInput =
  tdee :: real
  currentWeightLbs :: real
  targetWeightLbs :: real
  targetDate :: Date
  gender :: Gender

record DailyCalorieTarget =
  dailyCalories :: real
  weeklyChange :: real
  dailyDeficitSurplus :: real

text \<open>Calculate daily calorie target based on goal.\<close>

definition calculateDailyCalorieTarget :: "Date \<Rightarrow> GoalCalculationInput \<Rightarrow> DailyCalorieTarget" where
  "calculateDailyCalorieTarget now input =
    (let weeklyChange = calculateRequiredWeeklyChange now (currentWeightLbs input)
           (GoalCalculationInput.targetWeightLbs input) (GoalCalculationInput.targetDate input);
         dailyDeficitSurplus = (weeklyChange * CALORIES_PER_POUND) / 7;
         dailyCalories = Math_round (tdee input + dailyDeficitSurplus);
         minCalories = (if gender input = male then MIN_CALORIES_MALE else MIN_CALORIES_FEMALE);
         dailyCalories = (if dailyCalories < minCalories then minCalories else dailyCalories)
     in \<lparr>DailyCalorieTarget.dailyCalories = dailyCalories,
         weeklyChange = weeklyChange,
         dailyDeficitSurplus = dailyDeficitSurplus\<rparr>)"

section \<open>Macro grams\<close>

record MacroGrams =
  proteinGrams :: jsnum
  carbsGrams :: jsnum
  fatGrams :: jsnum

record MacroTargets = MacroGrams +
  dailyCalories :: real

text \<open>
  Calculate macro gram targets from calories and ratios. The ratios are divided by their
  sum with no check of the sum.
\<close>

definition calculateMacroGrams :: "real \<Rightarrow> real \<Rightarrow> real \<Rightarrow> real \<Rightarrow> MacroGrams" where
  "calculateMacroGrams = (\<lambda>dailyCalories proteinRatio carbsRatio fatRatio.
     let total = proteinRatio + carbsRatio + fatRatio;
         normalizedProtein = js_div (Num proteinRatio) (Num total);
         normalizedCarbs = js_div (Num carbsRatio) (Num total);
         normalizedFat = js_div (Num fatRatio) (Num total)
     in \<lparr>proteinGrams =
           js_round (js_div (js_mul (Num dailyCalories) normalizedProtein)
             (Num (protein CALORIES_PER_GRAM))),
         carbsGrams =
           js_round (js_div (js_mul (Num dailyCalories) normalizedCarbs)
             (Num (carbs CALORIES_PER_GRAM))),
         fatGrams =
           js_round (js_div (js_mul (Num dailyCalories) normalizedFat)
             (Num (fat CALORIES_PER_GRAM)))\<rparr>)"

text \<open>
  Get macro targets based on preference and calorie target. The optional argument
  \<open>customRatios\<close> is \<open>None\<close> when the caller leaves it out.
\<close>

definition getMacroTargets :: "real \<Rightarrow> MacroPreference \<Rightarrow> Ratios option \<Rightarrow> MacroTargets" where
  "getMacroTargets = (\<lambda>dailyCalories preference customRatios.
     let ratios = (if preference = manual \<and> customRatios \<noteq> None then the customRatios
                   else MACRO_PRESETS preference);
         grams = calculateMacroGrams dailyCalories (protein ratios) (carbs ratios) (fat ratios)
     in \<lparr>proteinGrams = proteinGrams grams,
         carbsGrams = carbsGrams grams,
         fatGrams = fatGrams grams,
         MacroTargets.dailyCalories = dailyCalories\<rparr>)"

section \<open>Weekly check-in\<close>

text \<open>
  Calculate true TDEE from actual intake and weight change:
  average daily intake - (weight change in lbs * 3500 / days tracked).
\<close>

definition calculateTrueTDEE :: "real \<Rightarrow> real \<Rightarrow> real \<Rightarrow> jsnum" where
  "calculateTrueTDEE avgDailyCalories weightChangeLbs daysTracked =
    (let dailyCalorieChange = js_div (Num (weightChangeLbs * CALORIES_PER_POUND)) (Num daysTracked)
     in js_round (js_sub (Num avgDailyCalories) dailyCalorieChange))"

record WeeklyCheckInInput =
  previousWeight :: real
  currentWeight :: real
  avgDailyCalories :: real
  currentDailyTarget :: real
  targetWeightLbs :: real
  targetDate :: Date
  macroPreference :: MacroPreference
  proteinRatio :: real
  carbsRatio :: real
  fatRatio :: real

record WeeklyCheckInResult =
  calculatedTDEE :: jsnum
  expectedWeeklyChange :: real
  actualWeeklyChange :: real
  newDailyCalories :: real
  adjustmentReason :: string
  newProteinGrams :: jsnum
  newCarbsGrams :: jsnum
  newFatGrams :: jsnum

text \<open>
  Weekly check-in algorithm: adjusts calorie targets based on actual progress vs expected
  progress. The two variables that the branches assign, \<open>newDailyCalories\<close> and
  \<open>adjustmentReason\<close>, are the pair that the conditional returns.
\<close>

definition performWeeklyCheckIn :: "Date \<Rightarrow> WeeklyCheckInInput \<Rightarrow> WeeklyCheckInResult" where
  "performWeeklyCheckIn now input =
    (let actualWeeklyChange = currentWeight input - previousWeight input;
         expectedWeeklyChange = calculateRequiredWeeklyChange now (previousWeight input)
           (targetWeightLbs input) (targetDate input);
         calculatedTDEE = calculateTrueTDEE (avgDailyCalories input) actualWeeklyChange 7;
         currentDailyTarget = currentDailyTarget input;
         tolerance = 2 / 10;
         (newDailyCalories, adjustmentReason) =
           (if expectedWeeklyChange < 0 then
              (if actualWeeklyChange > expectedWeeklyChange + tolerance then
                 (currentDailyTarget - 100,
                  ''Lost less than expected. Reducing daily calories by 100.'')
               else if actualWeeklyChange < expectedWeeklyChange - tolerance then
                 (currentDailyTarget + 100,
                  ''Lost more than expected. Increasing daily calories by 100 to prevent too rapid loss.'')
               else (currentDailyTarget, ''On track! No adjustment needed.''))
            else if expectedWeeklyChange > 0 then
              (if actualWeeklyChange < expectedWeeklyChange - tolerance then
                 (currentDailyTarget + 100,
                  ''Gained less than expected. Increasing daily calories by 100.'')
               else if actualWeeklyChange > expectedWeeklyChange + tolerance then
                 (currentDailyTarget - 100,
                  ''Gained more than expected. Reducing daily calories by 100.'')
               else (currentDailyTarget, ''On track! No adjustment needed.''))
            else
              (if \<bar>actualWeeklyChange\<bar> > tolerance then
                 (if actualWeeklyChange > 0 then
                    (currentDailyTarget - 50,
                     ''Weight increased slightly. Reducing calories by 50.'')
                  else
                    (currentDailyTarget + 50,
                     ''Weight decreased slightly. Increasing calories by 50.''))
               else (currentDailyTarget, ''Maintaining weight. No adjustment needed.'')));
         newMacros = calculateMacroGrams newDailyCalories (proteinRatio input) (carbsRatio input)
           (fatRatio input)
     in \<lparr>calculatedTDEE = calculatedTDEE,
         expectedWeeklyChange = expectedWeeklyChange,
         actualWeeklyChange = actualWeeklyChange,
         newDailyCalories = newDailyCalories,
         adjustmentReason = adjustmentReason,
         newProteinGrams = proteinGrams newMacros,
         newCarbsGrams = carbsGrams newMacros,
         newFatGrams = fatGrams newMacros\<rparr>)"

section \<open>Definitions that follow the specification\<close>

text \<open>
  The whole calendar years elapsed from \<open>birthDate\<close> to \<open>referenceDate\<close>, in UTC: the
  difference of the years, less one when the birthday of the reference year is still to
  come.
\<close>

definition wholeYearsElapsed :: "Date \<Rightarrow> Date \<Rightarrow> int" where
  "wholeYearsElapsed birthDate referenceDate =
    (let years = YearFromTime referenceDate - YearFromTime birthDate;
         birthdayReached =
           (MonthFromTime birthDate < MonthFromTime referenceDate
            \<or> (MonthFromTime birthDate = MonthFromTime referenceDate
               \<and> (DateFromTime birthDate < DateFromTime referenceDate
                  \<or> (DateFromTime birthDate = DateFromTime referenceDate
                     \<and> TimeWithinDay birthDate \<le> TimeWithinDay referenceDate))))
     in if birthdayReached then years else years - 1)"

text \<open>The calories of a macro split: protein and carbs at 4 kcal/g, fat at 9 kcal/g.\<close>

definition caloriesOfGrams :: "real \<Rightarrow> real \<Rightarrow> real \<Rightarrow> real" where
  "caloriesOfGrams p c f = p * 4 + c * 4 + f * 9"

section \<open>The year search computes the year of the language specification\<close>

lemma div_bounds:
  fixes a k :: int
  assumes "0 < k"
  shows "k * (a div k) \<le> a" and "a < k * (a div k) + k"
proof -
  have "a = k * (a div k) + a mod k" by simp
  moreover have "0 \<le> a mod k" "a mod k < k" using assms by simp_all
  ultimately show "k * (a div k) \<le> a" and "a < k * (a div k) + k" by linarith+
qed

lemma DayFromYear_linear:
  "400 * DayFromYear y \<le> 146097 * (y - 1970) + 589"
  "146097 * (y - 1970) - 506 \<le> 400 * DayFromYear y"
proof -
  define a where "a = (y - 1969) div 4"
  define b where "b = (y - 1901) div 100"
  define c where "c = (y - 1601) div 400"
  have a: "4 * a \<le> y - 1969" "y - 1969 < 4 * a + 4"
    unfolding a_def by (rule div_bounds, simp)+
  have b: "100 * b \<le> y - 1901" "y - 1901 < 100 * b + 100"
    unfolding b_def by (rule div_bounds, simp)+
  have c: "400 * c \<le> y - 1601" "y - 1601 < 400 * c + 400"
    unfolding c_def by (rule div_bounds, simp)+
  have D: "DayFromYear y = 365 * (y - 1970) + a - b + c"
    unfolding DayFromYear_def a_def b_def c_def by simp
  have "400 * a \<le> 100 * (y - 1969)" "100 * (y - 1969) \<le> 400 * a + 300"
    using a by simp_all
  moreover have "400 * b \<le> 4 * (y - 1901)" "4 * (y - 1901) \<le> 400 * b + 396"
    using b by simp_all
  moreover have "400 * c \<le> y - 1601" "y - 1601 \<le> 400 * c + 399"
    using c by simp_all
  ultimately show "400 * DayFromYear y \<le> 146097 * (y - 1970) + 589"
    and "146097 * (y - 1970) - 506 \<le> 400 * DayFromYear y"
    unfolding D by simp_all
qed

lemma div_succ:
  fixes a k :: int
  assumes "1 < k"
  shows "(a + 1) div k = (if (a + 1) mod k = 0 then a div k + 1 else a div k)"
proof (cases "(a + 1) mod k = 0")
  case True
  then obtain q where q: "a + 1 = k * q" by (auto simp: mod_eq_0_iff_dvd)
  then have "a = k * (q - 1) + (k - 1)" by (simp add: algebra_simps)
  moreover have "(k * (q - 1) + (k - 1)) div k = q - 1"
    using assms by simp
  ultimately have "a div k = q - 1" by simp
  moreover have "(a + 1) div k = q" using q assms by simp
  ultimately show ?thesis using True by simp
next
  case False
  have m: "0 \<le> (a + 1) mod k" "(a + 1) mod k < k" using assms by simp_all
  define r where "r = (a + 1) mod k"
  define q where "q = (a + 1) div k"
  have "a + 1 = k * q + r" unfolding q_def r_def by simp
  then have a: "a = k * q + (r - 1)" by simp
  have "0 \<le> r - 1" "r - 1 < k" using m False unfolding r_def by linarith+
  then have "(k * q + (r - 1)) div k = q" using assms by simp
  then have "a div k = q" using a by simp
  then show ?thesis using False unfolding q_def by simp
qed

lemma mod_shift:
  fixes y :: int
  shows "(y - 1968) mod 4 = y mod 4" "(y - 1900) mod 100 = y mod 100"
    "(y - 1600) mod 400 = y mod 400"
proof -
  have "(y + 4 * (- 492)) mod 4 = y mod 4" by (rule mod_mult_self2)
  then show "(y - 1968) mod 4 = y mod 4" by simp
  have "(y + 100 * (- 19)) mod 100 = y mod 100" by (rule mod_mult_self2)
  then show "(y - 1900) mod 100 = y mod 100" by simp
  have "(y + 400 * (- 4)) mod 400 = y mod 400" by (rule mod_mult_self2)
  then show "(y - 1600) mod 400 = y mod 400" by simp
qed

lemma DayFromYear_Suc: "DayFromYear (y + 1) = DayFromYear y + DaysInYear y"
proof -
  have s: "y + 1 - 1969 = y - 1969 + 1" "y + 1 - 1901 = y - 1901 + 1" "y + 1 - 1601 = y - 1601 + 1"
    "y + 1 - 1970 = y - 1970 + 1"
    by simp_all
  have 1: "(y + 1 - 1969) div 4 = (if y mod 4 = 0 then (y - 1969) div 4 + 1 else (y - 1969) div 4)"
    unfolding s using div_succ [of 4 "y - 1969"] by (simp add: mod_shift)
  have 2: "(y + 1 - 1901) div 100 = (if y mod 100 = 0 then (y - 1901) div 100 + 1 else (y - 1901) div 100)"
    unfolding s using div_succ [of 100 "y - 1901"] by (simp add: mod_shift)
  have 3: "(y + 1 - 1601) div 400 = (if y mod 400 = 0 then (y - 1601) div 400 + 1 else (y - 1601) div 400)"
    unfolding s using div_succ [of 400 "y - 1601"] by (simp add: mod_shift)
  have "y mod 400 mod 100 = y mod 100" "y mod 100 mod 4 = y mod 4"
    by (rule mod_mod_cancel, simp)+
  then have 4: "y mod 400 = 0 \<Longrightarrow> y mod 100 = 0" "y mod 100 = 0 \<Longrightarrow> y mod 4 = 0"
    by auto
  show ?thesis
    unfolding DayFromYear_def DaysInYear_def 1 2 3 using 4 by auto
qed

lemma DayFromYear_strict: "DayFromYear y < DayFromYear (y + 1)"
  unfolding DayFromYear_Suc DaysInYear_def by simp

lemma DayFromYear_mono: "y \<le> z \<Longrightarrow> DayFromYear y \<le> DayFromYear z"
proof (induction z rule: int_ge_induct)
  case base
  show ?case by simp
next
  case (step i)
  then show ?case using DayFromYear_strict [of i] by simp
qed

lemma DayFromYear_below:
  assumes "y \<le> 1968 + d div 365" and "y \<le> 1968 + d div 366"
  shows "DayFromYear y \<le> d"
proof -
  define p where "p = d div 365"
  define q where "q = d div 366"
  have "365 * p \<le> d" "366 * q \<le> d"
    unfolding p_def q_def by (rule div_bounds, simp)+
  moreover have "y \<le> 1968 + p" "y \<le> 1968 + q"
    using assms unfolding p_def q_def by simp_all
  ultimately have "365 * y - 365 * 1968 \<le> d" "366 * y - 366 * 1968 \<le> d"
    by linarith+
  then have "146097 * y - 146097 * 1970 + 589 \<le> 400 * d"
    by (cases "1970 \<le> y") linarith+
  moreover have "400 * DayFromYear y \<le> 146097 * y - 146097 * 1970 + 589"
    using DayFromYear_linear(1) [of y] by (simp add: algebra_simps)
  ultimately show ?thesis by linarith
qed

lemma DayFromYear_above:
  assumes "1970 + d div 365 < y" and "1970 + d div 366 < y"
  shows "d < DayFromYear (y + 1)"
proof -
  define p where "p = d div 365"
  define q where "q = d div 366"
  have "d < 365 * p + 365" "d < 366 * q + 366"
    unfolding p_def q_def by (rule div_bounds, simp)+
  moreover have "1970 + p < y" "1970 + q < y"
    using assms unfolding p_def q_def by simp_all
  ultimately have "d < 365 * y - 365 * 1970" "d < 366 * y - 366 * 1970"
    by linarith+
  then have "400 * d < 146097 * y - 146097 * 1969 - 506"
    by (cases "1970 \<le> y") linarith+
  moreover have "146097 * y - 146097 * 1969 - 506 \<le> 400 * DayFromYear (y + 1)"
    using DayFromYear_linear(2) [of "y + 1"] by (simp add: algebra_simps)
  ultimately show ?thesis by linarith
qed

lemma yearSearch_correct:
  assumes "DayFromYear lo \<le> d" and "lo \<le> y" and "d < DayFromYear (y + 1)"
  shows "DayFromYear (yearSearch d lo y) \<le> d \<and> d < DayFromYear (yearSearch d lo y + 1)"
  using assms
proof (induction d lo y rule: yearSearch.induct)
  case (1 d lo y)
  show ?case
  proof (cases "y \<le> lo \<or> DayFromYear y \<le> d")
    case True
    then have "yearSearch d lo y = y" by (simp add: yearSearch.simps)
    moreover have "DayFromYear y \<le> d" using True 1(2,3) by auto
    ultimately show ?thesis using 1(4) by simp
  next
    case False
    then have "yearSearch d lo y = yearSearch d lo (y - 1)"
      by (subst yearSearch.simps) simp
    moreover have "lo \<le> y - 1" "d < DayFromYear (y - 1 + 1)" using False by simp_all
    ultimately show ?thesis using 1(1) [OF False 1(2)] by simp
  qed
qed

text \<open>The characterisation of the language specification holds of the search.\<close>

lemma YearFromTime_bounds:
  "DayFromYear (YearFromTime t) \<le> Day t \<and> Day t < DayFromYear (YearFromTime t + 1)"
  unfolding YearFromTime_def Let_def
proof (rule yearSearch_correct)
  show "DayFromYear (1968 + min (Day t div 365) (Day t div 366)) \<le> Day t"
    by (rule DayFromYear_below) simp_all
  show "1968 + min (Day t div 365) (Day t div 366) \<le> 1971 + max (Day t div 365) (Day t div 366)"
    by simp
  show "Day t < DayFromYear (1971 + max (Day t div 365) (Day t div 366) + 1)"
    by (rule DayFromYear_above) simp_all
qed

lemma YearFromTime_largest: "DayFromYear y \<le> Day t \<Longrightarrow> y \<le> YearFromTime t"
proof (rule ccontr)
  assume a: "DayFromYear y \<le> Day t" and "\<not> y \<le> YearFromTime t"
  then have "YearFromTime t + 1 \<le> y" by simp
  then have "DayFromYear (YearFromTime t + 1) \<le> DayFromYear y" by (rule DayFromYear_mono)
  then show False using a YearFromTime_bounds [of t] by simp
qed

lemma YearFromTime_negative:
  assumes "t < 0"
  shows "YearFromTime t < 1970"
proof (rule ccontr)
  assume "\<not> YearFromTime t < 1970"
  then have "DayFromYear 1970 \<le> DayFromYear (YearFromTime t)"
    by (intro DayFromYear_mono) simp
  moreover have "DayFromYear 1970 = 0" by (simp add: DayFromYear_def)
  ultimately have "0 \<le> Day t"
    using YearFromTime_bounds [of t] by simp
  moreover have "Day t < 0"
    using assms unfolding Day_def msPerDay_def by (simp add: div_neg_pos_less0)
  ultimately show False by simp
qed

section \<open>Properties of the algorithm library\<close>

lemmas date_eval = utcDate_def DayFromYear_def DaysInYear_def msPerDay_def Day_def
  YearFromTime_def yearSearch.simps TimeClip_def MonthFromTime_def DateFromTime_def
  InLeapYear_def DayWithinYear_def TimeWithinDay_def

subsection \<open>The examples of the test suite\<close>

lemma utcDate_examples:
  "utcDate 1970 1 1 = 0" "utcDate 2026 2 4 = 1770163200000" "utcDate 1990 3 1 = 636249600000"
  by (simp_all add: date_eval)

lemma utcDate_fields:
  "YearFromTime (utcDate 1990 3 1) = 1990 \<and> MonthFromTime (utcDate 1990 3 1) = 2
    \<and> DateFromTime (utcDate 1990 3 1) = 1"
  "YearFromTime (utcDate 2024 2 29) = 2024 \<and> MonthFromTime (utcDate 2024 2 29) = 1
    \<and> DateFromTime (utcDate 2024 2 29) = 29"
  by (simp_all add: date_eval)

lemma calculateAge_test_suite:
  "calculateAge (utcDate 1990 1 1) (utcDate 2026 2 4) = Num 36"
  "calculateAge (utcDate 1990 3 1) (utcDate 2026 2 4) = Num 35"
  by (simp_all add: calculateAge_def date_eval)

lemma getMacroTargets_test_suite:
  "getMacroTargets 2000 high_protein None =
    \<lparr>proteinGrams = Num 200, carbsGrams = Num 150, fatGrams = Num 67, dailyCalories = 2000\<rparr>"
  "getMacroTargets 2000 manual (Some \<lparr>protein = 45 / 100, carbs = 25 / 100, fat = 30 / 100\<rparr>) =
    \<lparr>proteinGrams = Num 225, carbsGrams = Num 125, fatGrams = Num 67, dailyCalories = 2000\<rparr>"
  by (simp_all add: getMacroTargets_def calculateMacroGrams_def CALORIES_PER_GRAM_def
      Math_round_def)

text \<open>
  The test "flags unsafe weight loss goals" expects the message of \<open>validateGoalSafety(-3)\<close>
  to contain "dangerous". Three pounds a week is not above \<open>MAX_WEEKLY_LOSS_LBS * 1.5\<close>, so
  the code answers with the message of the aggressive tier.
\<close>

lemma validateGoalSafety_minus_3:
  "validateGoalSafety (- 3) =
    \<lparr>isSafe = False, isRealistic = True,
     message = ''Losing 3.0 lbs/week is aggressive and may not be sustainable. Consider a more gradual approach.''\<rparr>"
  by (simp add: validateGoalSafety_def MAX_WEEKLY_LOSS_LBS_def toFixed1_def decimal.simps
      digit_char_def)

subsection \<open>Rounding\<close>

lemma Math_round_error: "\<bar>Math_round x - x\<bar> \<le> 1 / 2"
  unfolding Math_round_def by linarith

lemma rounding_slack:
  "\<bar>caloriesOfGrams (Math_round x) (Math_round y) (Math_round z) - (4 * x + 4 * y + 9 * z)\<bar>
    \<le> 17 / 2"
  using Math_round_error [of x] Math_round_error [of y] Math_round_error [of z]
  unfolding caloriesOfGrams_def by linarith

lemma calculateMacroGrams_finite:
  assumes "p + c + f \<noteq> 0"
  shows "calculateMacroGrams cal p c f =
    \<lparr>proteinGrams = Num (Math_round (cal * (p / (p + c + f)) / 4)),
     carbsGrams = Num (Math_round (cal * (c / (p + c + f)) / 4)),
     fatGrams = Num (Math_round (cal * (f / (p + c + f)) / 9))\<rparr>"
  using assms by (simp add: calculateMacroGrams_def CALORIES_PER_GRAM_def Let_def)

text \<open>The slack of 8.5 kcal is reached: no smaller bound holds for every input.\<close>

lemma rounding_slack_reached:
  "calculateMacroGrams (17 / 2) (4 / 17) (4 / 17) (9 / 17) =
     \<lparr>proteinGrams = Num 1, carbsGrams = Num 1, fatGrams = Num 1\<rparr>
   \<and> \<bar>caloriesOfGrams 1 1 1 - 17 / 2\<bar> = 17 / 2"
  by (simp add: calculateMacroGrams_def CALORIES_PER_GRAM_def Math_round_def caloriesOfGrams_def)

lemma division_by_zero_not_finite:
  "\<not> isFinite (js_round (js_div (js_mul (Num cal) (js_div (Num a) (Num 0))) (Num k)))"
  by (simp add: signed_infinity_def)

subsection \<open>The claims\<close>

text \<open>
  C1. For every weekly check-in input, \<open>performWeeklyCheckIn\<close> selects the new daily
  calorie target by the decision table with tolerance 0.2 lbs. With the actual change
  \<open>currentWeight - previousWeight\<close> and the expected change the required weekly change
  computed from \<open>previousWeight\<close>: for a losing goal (expected below 0), 100 kcal less when
  actual > expected + 0.2, 100 kcal more when actual < expected - 0.2, unchanged otherwise;
  for a gaining goal (expected above 0), 100 kcal more when actual < expected - 0.2,
  100 kcal less when actual > expected + 0.2, unchanged otherwise; for maintenance
  (expected 0), 50 kcal less when actual > 0.2, 50 kcal more when actual < -0.2, unchanged
  otherwise.
\<close>

theorem performWeeklyCheckIn_decision_table:
  "actualWeeklyChange (performWeeklyCheckIn now input) = currentWeight input - previousWeight input
   \<and> expectedWeeklyChange (performWeeklyCheckIn now input) =
       calculateRequiredWeeklyChange now (previousWeight input) (targetWeightLbs input)
         (targetDate input)
   \<and> newDailyCalories (performWeeklyCheckIn now input) =
    (let actual = currentWeight input - previousWeight input;
         expected = calculateRequiredWeeklyChange now (previousWeight input)
           (targetWeightLbs input) (targetDate input);
         target = currentDailyTarget input
     in if expected < 0 then
          (if actual > expected + 2 / 10 then target - 100
           else if actual < expected - 2 / 10 then target + 100
           else target)
        else if expected > 0 then
          (if actual < expected - 2 / 10 then target + 100
           else if actual > expected + 2 / 10 then target - 100
           else target)
        else
          (if actual > 2 / 10 then target - 50
           else if actual < - (2 / 10) then target + 50
           else target))"
  by (simp add: performWeeklyCheckIn_def Let_def)

text \<open>
  C2. For every tdee, goal and gender, \<open>calculateDailyCalorieTarget\<close> returns as
  \<open>dailyCalories\<close> the value \<open>round(tdee + weeklyChange * 3500 / 7)\<close> clamped up to the floor
  of the gender (1500 for male, 1200 for female or other) and never clamped down: the
  maximum of the rounded value and the floor.
\<close>

theorem calculateDailyCalorieTarget_floor_clamp:
  "weeklyChange (calculateDailyCalorieTarget now input) =
     calculateRequiredWeeklyChange now (currentWeightLbs input)
       (GoalCalculationInput.targetWeightLbs input) (GoalCalculationInput.targetDate input)
   \<and> DailyCalorieTarget.dailyCalories (calculateDailyCalorieTarget now input) =
     max (Math_round (tdee input + weeklyChange (calculateDailyCalorieTarget now input) * 3500 / 7))
       (if gender input = male then 1500 else 1200)"
  by (simp add: calculateDailyCalorieTarget_def Let_def CALORIES_PER_POUND_def
      MIN_CALORIES_MALE_def MIN_CALORIES_FEMALE_def max_def)

text \<open>
  C3. For every real \<open>weeklyChange\<close>, \<open>validateGoalSafety\<close> classifies by magnitude. For a
  loss (below 0): safe and realistic iff the magnitude is at most 2, unsafe but realistic
  iff it is above 2 and at most 3, unsafe and unrealistic iff it is above 3. For a gain
  (above 0) the bounds are 1 and 1.5. A change of exactly 0 is safe and realistic.
\<close>

theorem validateGoalSafety_tiers:
  "(if w < 0 then
      ((isSafe (validateGoalSafety w) \<and> isRealistic (validateGoalSafety w)) = (\<bar>w\<bar> \<le> 2))
      \<and> ((\<not> isSafe (validateGoalSafety w) \<and> isRealistic (validateGoalSafety w))
          = (2 < \<bar>w\<bar> \<and> \<bar>w\<bar> \<le> 3))
      \<and> ((\<not> isSafe (validateGoalSafety w) \<and> \<not> isRealistic (validateGoalSafety w)) = (3 < \<bar>w\<bar>))
    else if w > 0 then
      ((isSafe (validateGoalSafety w) \<and> isRealistic (validateGoalSafety w)) = (\<bar>w\<bar> \<le> 1))
      \<and> ((\<not> isSafe (validateGoalSafety w) \<and> isRealistic (validateGoalSafety w))
          = (1 < \<bar>w\<bar> \<and> \<bar>w\<bar> \<le> 3 / 2))
      \<and> ((\<not> isSafe (validateGoalSafety w) \<and> \<not> isRealistic (validateGoalSafety w))
          = (3 / 2 < \<bar>w\<bar>))
    else isSafe (validateGoalSafety w) \<and> isRealistic (validateGoalSafety w))"
  by (simp add: validateGoalSafety_def MAX_WEEKLY_LOSS_LBS_def MAX_WEEKLY_GAIN_LBS_def Let_def)

text \<open>
  C4, as the specification states it: \<open>validateGoalSafety(-1.5)\<close> returns
  \<open>isRealistic = true\<close> and \<open>isSafe = false\<close>. It does not: a loss of 1.5 lbs a week is at
  most \<open>MAX_WEEKLY_LOSS_LBS\<close> and is answered as safe.
\<close>

theorem validateGoalSafety_minus_1_5_is_safe:
  "\<not> (isRealistic (validateGoalSafety (- (3 / 2))) \<and> \<not> isSafe (validateGoalSafety (- (3 / 2))))"
  by (simp add: validateGoalSafety_def MAX_WEEKLY_LOSS_LBS_def)

text \<open>
  C4, amended: \<open>validateGoalSafety(-3)\<close> returns \<open>isSafe = false\<close>, and
  \<open>validateGoalSafety(-1.5)\<close> returns \<open>isRealistic = true\<close> and \<open>isSafe = true\<close>, the safe tier.
\<close>

theorem validateGoalSafety_examples:
  "\<not> isSafe (validateGoalSafety (- 3))
   \<and> isRealistic (validateGoalSafety (- (3 / 2)))
   \<and> isSafe (validateGoalSafety (- (3 / 2)))"
  by (simp add: validateGoalSafety_def MAX_WEEKLY_LOSS_LBS_def)

text \<open>
  C5, as the specification states it: for ratios summing to 1 the calories of the rounded
  grams are within 3 kcal of \<open>dailyCalories\<close>. They are not: 5 kcal, all of it fat, gives
  1 g of fat, which is 9 kcal, 4 kcal away.
\<close>

theorem calculateMacroGrams_slack_above_3:
  "calculateMacroGrams 5 0 0 1 = \<lparr>proteinGrams = Num 0, carbsGrams = Num 0, fatGrams = Num 1\<rparr>
   \<and> \<not> \<bar>caloriesOfGrams 0 0 1 - 5\<bar> \<le> 3"
  by (simp add: calculateMacroGrams_def CALORIES_PER_GRAM_def Math_round_def caloriesOfGrams_def)

text \<open>
  C5, amended: for every positive \<open>dailyCalories\<close> and every ratio triple of non-negative
  reals summing to 1, each gram amount returned by \<open>calculateMacroGrams\<close> is
  \<open>dailyCalories * ratio\<close> divided by its calories per gram (4, 4, 9) and rounded to the
  nearest integer on its own, and the calories of the three amounts are within 8.5 kcal of
  \<open>dailyCalories\<close>.
\<close>

theorem calculateMacroGrams_rounding_slack:
  assumes "0 < cal" and "0 \<le> p" and "0 \<le> c" and "0 \<le> f" and "p + c + f = 1"
  shows "\<exists>P C F. calculateMacroGrams cal p c f =
      \<lparr>proteinGrams = Num P, carbsGrams = Num C, fatGrams = Num F\<rparr>
    \<and> P = Math_round (cal * p / 4) \<and> C = Math_round (cal * c / 4) \<and> F = Math_round (cal * f / 9)
    \<and> \<bar>caloriesOfGrams P C F - cal\<bar> \<le> 17 / 2"
proof -
  have "4 * (cal * p / 4) + 4 * (cal * c / 4) + 9 * (cal * f / 9) = cal * (p + c + f)"
    by (simp add: algebra_simps)
  then have "4 * (cal * p / 4) + 4 * (cal * c / 4) + 9 * (cal * f / 9) = cal"
    using assms(5) by simp
  then have "\<bar>caloriesOfGrams (Math_round (cal * p / 4)) (Math_round (cal * c / 4))
      (Math_round (cal * f / 9)) - cal\<bar> \<le> 17 / 2"
    using rounding_slack [of "cal * p / 4" "cal * c / 4" "cal * f / 9"] by simp
  moreover have "calculateMacroGrams cal p c f =
    \<lparr>proteinGrams = Num (Math_round (cal * p / 4)), carbsGrams = Num (Math_round (cal * c / 4)),
     fatGrams = Num (Math_round (cal * f / 9))\<rparr>"
    using calculateMacroGrams_finite [of p c f cal] assms(5) by simp
  ultimately show ?thesis by blast
qed

theorem calculateMacroGrams_rounding_slack_witness:
  "(0::real) < 2000 \<and> (0::real) \<le> 40 / 100 \<and> (40 / 100 + 30 / 100 + 30 / 100 = (1::real))
   \<and> (\<exists>P C F. calculateMacroGrams 2000 (40 / 100) (30 / 100) (30 / 100) =
        \<lparr>proteinGrams = Num P, carbsGrams = Num C, fatGrams = Num F\<rparr>
      \<and> P = 200 \<and> C = 150 \<and> F = 67 \<and> \<bar>caloriesOfGrams P C F - 2000\<bar> \<le> 17 / 2)"
  using calculateMacroGrams_rounding_slack [of 2000 "40 / 100" "30 / 100" "30 / 100"]
  by (simp add: Math_round_def)

text \<open>
  C6. For every weekly check-in input, \<open>performWeeklyCheckIn\<close> does not reapply the calorie
  floor of the gender: \<open>newDailyCalories\<close> is \<open>currentDailyTarget\<close> plus one of -100, -50, 0,
  50, 100, also when the result is below 1200 kcal. A target of 1200 kcal with a goal of
  losing a pound a week and no change of weight becomes 1100 kcal.
\<close>

theorem performWeeklyCheckIn_no_floor:
  "newDailyCalories (performWeeklyCheckIn now input) - currentDailyTarget input
     \<in> {- 100, - 50, 0, 50, 100}
   \<and> newDailyCalories (performWeeklyCheckIn (utcDate 2026 2 4)
        \<lparr>previousWeight = 150, currentWeight = 150, avgDailyCalories = 1200,
         currentDailyTarget = 1200, targetWeightLbs = 140, targetDate = utcDate 2026 4 15,
         macroPreference = balanced, proteinRatio = 30 / 100, carbsRatio = 35 / 100,
         fatRatio = 35 / 100\<rparr>) = 1100"
  by (simp add: performWeeklyCheckIn_def Let_def calculateRequiredWeeklyChange_def
      daysBetween_def Math_round_def date_eval)

text \<open>
  C7, as the specification states it: when \<open>referenceDate\<close> precedes \<open>birthDate\<close>,
  \<open>calculateAge\<close> fails with an InvalidInput error. It does not: with the two dates of the
  test suite swapped it returns the number 36.
\<close>

theorem calculateAge_swapped_dates:
  "utcDate 1990 3 1 < utcDate 2026 2 4
   \<and> calculateAge (utcDate 2026 2 4) (utcDate 1990 3 1) = Num 36"
  by (simp add: calculateAge_def date_eval)

text \<open>
  C7, amended: for every pair of dates where \<open>referenceDate\<close> precedes \<open>birthDate\<close>,
  \<open>calculateAge\<close> raises no error. It returns the absolute value of the year of the
  (negative) difference less 1970, a whole number of at least 1, or \<open>NaN\<close> when the
  difference is beyond the range of a \<open>Date\<close>.
\<close>

theorem calculateAge_reference_before_birth:
  assumes "referenceDate < dateOfBirth"
  shows "calculateAge dateOfBirth referenceDate =
      (if dateOfBirth - referenceDate \<le> 8640000000000000
       then Num (real_of_int (1970 - YearFromTime (referenceDate - dateOfBirth)))
       else NaN)
    \<and> 1 \<le> 1970 - YearFromTime (referenceDate - dateOfBirth)"
proof -
  have "YearFromTime (referenceDate - dateOfBirth) < 1970"
    using assms by (intro YearFromTime_negative) simp
  then show ?thesis
    using assms by (simp add: calculateAge_def TimeClip_def Let_def)
qed

theorem calculateAge_reference_before_birth_witness:
  "utcDate 2000 1 1 < utcDate 2010 1 1
   \<and> calculateAge (utcDate 2010 1 1) (utcDate 2000 1 1) = Num 10
   \<and> (1::int) \<le> 1970 - YearFromTime (utcDate 2000 1 1 - utcDate 2010 1 1)"
  using calculateAge_reference_before_birth [of "utcDate 2000 1 1" "utcDate 2010 1 1"]
  by (simp add: date_eval)

text \<open>
  C8. For every \<open>birthDate\<close> not after \<open>referenceDate\<close>, \<open>calculateAge\<close> returns the whole
  calendar years elapsed, flooring. The code does not: on the 35th birthday of a person
  born on June 15 1988 it returns 34. The two dates are 12783 days apart, and day 12783
  after the epoch is December 31 2004, since the years from 1970 hold one leap day more
  than the years from June 1988.
\<close>

theorem calculateAge_misses_birthday:
  "utcDate 1988 6 15 \<le> utcDate 2023 6 15
   \<and> calculateAge (utcDate 1988 6 15) (utcDate 2023 6 15) = Num 34
   \<and> wholeYearsElapsed (utcDate 1988 6 15) (utcDate 2023 6 15) = 35"
  by (simp add: calculateAge_def wholeYearsElapsed_def date_eval)

text \<open>In the example of the specification the code and the calendar agree.\<close>

lemma calculateAge_example_of_the_specification:
  "calculateAge (utcDate 1990 3 1) (utcDate 2026 2 4) = Num 35
   \<and> wholeYearsElapsed (utcDate 1990 3 1) (utcDate 2026 2 4) = 35"
  by (simp add: calculateAge_def wholeYearsElapsed_def date_eval)

text \<open>The code also errs upwards: a child born on January 1 of a leap year is 1 a day early.\<close>

lemma calculateAge_early_birthday:
  "calculateAge (utcDate 2024 1 1) (utcDate 2024 12 31) = Num 1
   \<and> wholeYearsElapsed (utcDate 2024 1 1) (utcDate 2024 12 31) = 0"
  by (simp add: calculateAge_def wholeYearsElapsed_def date_eval)

text \<open>
  C9, as the specification states it: for a ratio set summing to zero the macro-gram
  computation fails with an InvalidInput error. It does not: the three zero ratios give
  three \<open>NaN\<close> gram values, returned to the caller.
\<close>

theorem calculateMacroGrams_zero_ratios:
  "calculateMacroGrams 2000 0 0 0 = \<lparr>proteinGrams = NaN, carbsGrams = NaN, fatGrams = NaN\<rparr>"
  by (simp add: calculateMacroGrams_def CALORIES_PER_GRAM_def signed_infinity_def)

text \<open>
  C9, amended: for every input whose macro ratio set sums to zero, the macro-gram
  computation raises no error: \<open>calculateMacroGrams\<close>, and with it \<open>getMacroTargets\<close> on
  custom ratios and \<open>performWeeklyCheckIn\<close>, returns three gram values none of which is
  finite (\<open>NaN\<close> or an infinity).
\<close>

theorem calculateMacroGrams_zero_sum:
  assumes "p + c + f = 0"
  shows "\<not> isFinite (proteinGrams (calculateMacroGrams cal p c f))
    \<and> \<not> isFinite (carbsGrams (calculateMacroGrams cal p c f))
    \<and> \<not> isFinite (fatGrams (calculateMacroGrams cal p c f))
    \<and> \<not> isFinite (proteinGrams
          (getMacroTargets cal manual (Some \<lparr>protein = p, carbs = c, fat = f\<rparr>)))
    \<and> \<not> isFinite (carbsGrams
          (getMacroTargets cal manual (Some \<lparr>protein = p, carbs = c, fat = f\<rparr>)))
    \<and> \<not> isFinite (fatGrams
          (getMacroTargets cal manual (Some \<lparr>protein = p, carbs = c, fat = f\<rparr>)))
    \<and> \<not> isFinite (newProteinGrams (performWeeklyCheckIn now
          (input\<lparr>proteinRatio := p, carbsRatio := c, fatRatio := f\<rparr>)))
    \<and> \<not> isFinite (newCarbsGrams (performWeeklyCheckIn now
          (input\<lparr>proteinRatio := p, carbsRatio := c, fatRatio := f\<rparr>)))
    \<and> \<not> isFinite (newFatGrams (performWeeklyCheckIn now
          (input\<lparr>proteinRatio := p, carbsRatio := c, fatRatio := f\<rparr>)))"
proof -
  have g: "\<not> isFinite (proteinGrams (calculateMacroGrams x p c f))
    \<and> \<not> isFinite (carbsGrams (calculateMacroGrams x p c f))
    \<and> \<not> isFinite (fatGrams (calculateMacroGrams x p c f))" for x
    using assms division_by_zero_not_finite by (simp add: calculateMacroGrams_def Let_def)
  show ?thesis
    using g by (simp add: getMacroTargets_def performWeeklyCheckIn_def Let_def case_prod_beta)
qed

theorem calculateMacroGrams_zero_sum_witness:
  "(1 / 2 + (- (1 / 2)) + 0 = (0::real))
   \<and> calculateMacroGrams 2000 (1 / 2) (- (1 / 2)) 0 =
       \<lparr>proteinGrams = PosInfinity, carbsGrams = NegInfinity, fatGrams = NaN\<rparr>
   \<and> \<not> isFinite (proteinGrams
         (getMacroTargets 2000 manual (Some \<lparr>protein = 1 / 2, carbs = - (1 / 2), fat = 0\<rparr>)))
   \<and> \<not> isFinite (newFatGrams (performWeeklyCheckIn (utcDate 2026 2 4)
         \<lparr>previousWeight = 200, currentWeight = 200, avgDailyCalories = 2000,
          currentDailyTarget = 2000, targetWeightLbs = 190, targetDate = utcDate 2026 4 15,
          macroPreference = manual, proteinRatio = 1 / 2, carbsRatio = - (1 / 2),
          fatRatio = 0\<rparr>))"
  using calculateMacroGrams_zero_sum [of "1 / 2" "- (1 / 2)" 0 2000 "utcDate 2026 2 4"
      "\<lparr>previousWeight = 200, currentWeight = 200, avgDailyCalories = 2000,
        currentDailyTarget = 2000, targetWeightLbs = 190, targetDate = utcDate 2026 4 15,
        macroPreference = manual, proteinRatio = 1 / 2, carbsRatio = - (1 / 2),
        fatRatio = 0\<rparr>"]
  by (simp add: calculateMacroGrams_def CALORIES_PER_GRAM_def signed_infinity_def)

text \<open>
  C10. Calling \<open>getMacroTargets\<close> with the preference \<open>manual\<close> and \<open>customRatios\<close> left out
  does not fail, for every \<open>dailyCalories\<close>: it falls back to the preset of \<open>manual\<close>,
  protein 0.30, carbs 0.35, fat 0.35, the ratios of the balanced preset, and returns
  the (finite) macro grams computed from them.
\<close>

theorem getMacroTargets_manual_default:
  "MACRO_PRESETS manual = \<lparr>protein = 30 / 100, carbs = 35 / 100, fat = 35 / 100\<rparr>
   \<and> MACRO_PRESETS manual = MACRO_PRESETS balanced
   \<and> getMacroTargets cal manual None = getMacroTargets cal balanced None
   \<and> getMacroTargets cal manual None =
      \<lparr>proteinGrams = Num (Math_round (cal * (30 / 100) / 4)),
       carbsGrams = Num (Math_round (cal * (35 / 100) / 4)),
       fatGrams = Num (Math_round (cal * (35 / 100) / 9)),
       dailyCalories = cal\<rparr>"
  by (simp add: getMacroTargets_def calculateMacroGrams_def CALORIES_PER_GRAM_def Let_def)


end
